theory Spec2Isabelle
  imports Main
begin

section \<open>JavaScript values used by the gateway and the dispatcher\<close>

text \<open>
  An optional string (\<open>string | undefined\<close>) is a \<open>string option\<close>. JavaScript tests such a
  value for truthiness: \<open>undefined\<close> and the empty string are falsy. \<open>a || b\<close> yields \<open>a\<close>
  when \<open>a\<close> is truthy and \<open>b\<close> otherwise.
\<close>

definition truthy :: "string option \<Rightarrow> bool" where
  "truthy v = (case v of None \<Rightarrow> False | Some s \<Rightarrow> s \<noteq> [])"

definition js_or :: "string option \<Rightarrow> string option \<Rightarrow> string option" where
  "js_or a b = (if truthy a then a else b)"

text \<open>
  Decoded bodies are JSON values. Numbers are kept as integers (of magnitude below
  \<open>10^21\<close>, where \<open>String\<close> writes plain digits): they only occur here as members of
  a body that is passed through.
\<close>

datatype json =
    JNull
  | JBool bool
  | JNumber int
  | JString string
  | JArray "json list"
  | JObject "(string \<times> json) list"

fun json_truthy :: "json \<Rightarrow> bool" where
  "json_truthy JNull = False"
| "json_truthy (JBool b) = b"
| "json_truthy (JNumber n) = (n \<noteq> 0)"
| "json_truthy (JString s) = (s \<noteq> [])"
| "json_truthy (JArray xs) = True"
| "json_truthy (JObject kvs) = True"

text \<open>
  \<open>payload?.key\<close>: the member of an object, \<open>undefined\<close> (\<open>None\<close>) on anything else. Of
  a key that occurs twice, \<open>JSON.parse\<close> keeps the last value.
\<close>

fun json_member :: "json \<Rightarrow> string \<Rightarrow> json option" where
  "json_member (JObject kvs) k = map_of (rev kvs) k"
| "json_member v k = None"

text \<open>The decimal numeral of a natural number.\<close>

fun decimal :: "nat \<Rightarrow> string" where
  "decimal n =
     (if n < 10 then [char_of (48 + n)]
      else decimal (n div 10) @ [char_of (48 + n mod 10)])"

declare decimal.simps [simp del]

fun join_str :: "string \<Rightarrow> string list \<Rightarrow> string" where
  "join_str sep [] = []"
| "join_str sep [x] = x"
| "join_str sep (x # y # ys) = x @ sep @ join_str sep (y # ys)"

text \<open>
  \<open>String(v)\<close>, the conversion that the \<open>Error\<close> constructor applies to its message. An
  array is the comma-separated list of its elements, \<open>null\<close> elements left empty; an object
  is \<open>[object Object]\<close>.
\<close>

fun js_toString :: "json \<Rightarrow> string" where
  "js_toString JNull = ''null''"
| "js_toString (JBool b) = (if b then ''true'' else ''false'')"
| "js_toString (JNumber n) = (if n < 0 then ''-'' @ decimal (nat (- n)) else decimal (nat n))"
| "js_toString (JString s) = s"
| "js_toString (JArray xs) = join_str '','' (map (\<lambda>v. if v = JNull then [] else js_toString v) xs)"
| "js_toString (JObject kvs) = ''[object Object]''"

definition startsWith :: "string \<Rightarrow> string \<Rightarrow> bool" where
  "startsWith s p = (take (length p) s = p)"

fun includes_str :: "string \<Rightarrow> string \<Rightarrow> bool" where
  "includes_str [] sub = (sub = [])"
| "includes_str (c # cs) sub = (startsWith (c # cs) sub \<or> includes_str cs sub)"

section \<open>Error taxonomy\<close>

datatype error_code =
    NETWORK_ERROR | BAD_REQUEST | UNAUTHORIZED | FORBIDDEN | NOT_FOUND | CONFLICT
  | VALIDATION_ERROR | RATE_LIMITED | INTERNAL_ERROR | BAD_GATEWAY | SERVICE_UNAVAILABLE
  | GATEWAY_TIMEOUT | UNKNOWN_ERROR

definition statusToCode :: "int \<Rightarrow> error_code" where
  "statusToCode s =
     (if s = 0 then NETWORK_ERROR
      else if s = 400 then BAD_REQUEST
      else if s = 401 then UNAUTHORIZED
      else if s = 403 then FORBIDDEN
      else if s = 404 then NOT_FOUND
      else if s = 409 then CONFLICT
      else if s = 422 then VALIDATION_ERROR
      else if s = 429 then RATE_LIMITED
      else if s = 500 then INTERNAL_ERROR
      else if s = 502 then BAD_GATEWAY
      else if s = 503 then SERVICE_UNAVAILABLE
      else if s = 504 then GATEWAY_TIMEOUT
      else UNKNOWN_ERROR)"

text \<open>
  \<open>class HttpError\<close>: the constructor stores status and body, computes the code, and passes
  the message to \<open>super\<close>, which stores it as a string. The call sites pass a string or a
  member of the decoded body.
\<close>

record HttpError =
  status :: int
  message :: string
  body :: "json option"
  code :: error_code

definition newHttpError :: "int \<Rightarrow> json \<Rightarrow> json option \<Rightarrow> HttpError" where
  "newHttpError s m b = \<lparr>status = s, message = js_toString m, body = b, code = statusToCode s\<rparr>"

section \<open>The dispatcher: \<open>request\<close>\<close>

record Config =
  cfg_apiUrl :: string
  cfg_apiKey :: "string option"
  cfg_jwt :: "string option"
  cfg_userAgent :: string

text \<open>
  \<open>RequestOptions\<close>. \<open>signal\<close> records whether the caller passed an \<open>AbortSignal\<close>; the state
  of that signal belongs to the environment of each attempt. \<open>retries\<close> and \<open>retryDelay\<close> are
  integers.
\<close>

record RequestOptions =
  opt_method :: "string option"
  opt_body :: "json option"
  opt_signal :: bool
  opt_retries :: "int option"
  opt_retryDelay :: "int option"

definition RETRYABLE_STATUSES :: "int set" where
  "RETRYABLE_STATUSES = {408, 429, 500, 502, 503, 504}"

definition MAX_RETRIES :: int where
  "MAX_RETRIES = 3"

definition BASE_DELAY :: int where
  "BASE_DELAY = 1000"

definition maxRetries :: "RequestOptions \<Rightarrow> int" where
  "maxRetries options = (case opt_retries options of None \<Rightarrow> MAX_RETRIES | Some n \<Rightarrow> n)"

definition baseDelay :: "RequestOptions \<Rightarrow> int" where
  "baseDelay options = (case opt_retryDelay options of None \<Rightarrow> BASE_DELAY | Some n \<Rightarrow> n)"

subsection \<open>What is sent\<close>

definition apiPath :: "string \<Rightarrow> string" where
  "apiPath path = (if startsWith path ''/api/'' then path else ''/api/v1'' @ path)"

text \<open>\<open>apiUrl.replace(/\/$/, '')\<close> removes one trailing slash.\<close>

definition stripTrailingSlash :: "string \<Rightarrow> string" where
  "stripTrailingSlash s = (if s \<noteq> [] \<and> last s = CHR ''/'' then butlast s else s)"

definition requestUrl :: "Config \<Rightarrow> string \<Rightarrow> string" where
  "requestUrl config path = stripTrailingSlash (cfg_apiUrl config) @ apiPath path"

definition requestHeaders :: "Config \<Rightarrow> (string \<rightharpoonup> string)" where
  "requestHeaders config =
     (let headers = [''Content-Type'' \<mapsto> ''application/json'',
                     ''User-Agent'' \<mapsto> cfg_userAgent config];
          headers = (if truthy (cfg_apiKey config)
                     then headers(''X-API-Key'' \<mapsto> the (cfg_apiKey config)) else headers);
          headers = (if truthy (cfg_jwt config)
                     then headers(''Authorization'' \<mapsto> ''Bearer '' @ the (cfg_jwt config))
                     else headers)
      in headers)"

definition requestMethod :: "RequestOptions \<Rightarrow> string" where
  "requestMethod options =
     (if truthy (opt_method options) then the (opt_method options)
      else if (case opt_body options of None \<Rightarrow> False | Some b \<Rightarrow> json_truthy b)
      then ''POST'' else ''GET'')"

subsection \<open>What one attempt meets\<close>

text \<open>
  A \<open>Response\<close> as the loop reads it: status and status text, the two headers it asks for,
  and what \<open>response.json()\<close> and \<open>response.text()\<close> give (\<open>None\<close> when the promise rejects,
  which the code turns into \<open>null\<close>).
\<close>

record Response =
  resp_status :: int
  resp_statusText :: string
  resp_contentType :: "string option"
  resp_retryAfter :: "string option"
  resp_json :: "json option"
  resp_text :: "string option"

definition resp_ok :: "Response \<Rightarrow> bool" where
  "resp_ok r = (200 \<le> resp_status r \<and> resp_status r \<le> 299)"

text \<open>
  \<open>await fetch(url, fetchOptions)\<close> either resolves with a response or rejects with an error
  that has a name and a message. An abort of the attempt's controller, by the 180 second
  timer or by the listener on the caller's signal, makes it reject with the name
  \<open>AbortError\<close>.
\<close>

datatype fetch_outcome =
    Resolved Response
  | Rejected string string

text \<open>
  The environment of one attempt: how \<open>fetch\<close> settles, and the value of
  \<open>options.signal.aborted\<close> when the \<open>catch\<close> block reads it. Every \<open>await\<close> of an attempt
  is taken to settle: the timer of the attempt bounds the wait for \<open>fetch\<close>.
\<close>

record attempt_env =
  fetched :: fetch_outcome
  signal_aborted :: bool

text \<open>
  The numbers of the delay computation are IEEE doubles. The values that occur are integers,
  the two infinities and \<open>NaN\<close>; \<open>Fin n\<close> is a double whose value is the integer \<open>n\<close> (the two
  zeros are not told apart).
\<close>

datatype jsnum = Fin int | PosInf | NegInf | NaN

text \<open>The number of binary digits of a positive integer.\<close>

function bitlen :: "int \<Rightarrow> nat" where
  "bitlen n = (if n \<le> 0 then 0 else Suc (bitlen (n div 2)))"
  by pat_completeness auto
termination
  by (relation "measure nat") auto

declare bitlen.simps [simp del]

text \<open>
  The double nearest to an integer, ties to the even significand of 53 bits; an infinity
  from \<open>2^1024\<close> on.
\<close>

definition roundDouble :: "int \<Rightarrow> jsnum" where
  "roundDouble n =
     (let a = \<bar>n\<bar>
      in if a < 2 ^ 53 then Fin n
         else
           (let e = bitlen a - 53;
                q = a div 2 ^ e;
                r = a mod 2 ^ e;
                half = 2 ^ (e - 1);
                q' = (if r > half \<or> (r = half \<and> odd q) then q + 1 else q);
                m = q' * 2 ^ e
            in if m \<ge> 2 ^ 1024 then (if n < 0 then NegInf else PosInf)
               else Fin (if n < 0 then - m else m)))"

definition jsign :: "jsnum \<Rightarrow> int" where
  "jsign x = (case x of Fin a \<Rightarrow> sgn a | PosInf \<Rightarrow> 1 | NegInf \<Rightarrow> - 1 | NaN \<Rightarrow> 0)"

text \<open>\<open>x * y\<close>: the exact product rounded; zero times an infinity is \<open>NaN\<close>.\<close>

definition js_mul :: "jsnum \<Rightarrow> jsnum \<Rightarrow> jsnum" where
  "js_mul x y =
     (if x = NaN \<or> y = NaN then NaN
      else (case (x, y) of
              (Fin a, Fin b) \<Rightarrow> roundDouble (a * b)
            | _ \<Rightarrow> if jsign x * jsign y = 0 then NaN
                   else if jsign x * jsign y > 0 then PosInf else NegInf))"

text \<open>\<open>Math.pow(2, k)\<close> for a natural number \<open>k\<close>.\<close>

definition pow2 :: "nat \<Rightarrow> jsnum" where
  "pow2 k = (if k \<le> 1023 then Fin (2 ^ k) else PosInf)"

text \<open>
  \<open>parseInt(s, 10)\<close>: skip leading white space, take an optional sign, read the longest
  prefix of decimal digits; \<open>NaN\<close> when there is no digit, and else the double nearest to
  the number read, as V8 computes it.
\<close>

definition isWhiteSpace :: "char \<Rightarrow> bool" where
  "isWhiteSpace c = (c \<in> {CHR '' '', CHR 0x09, CHR 0x0A, CHR 0x0B, CHR 0x0C, CHR 0x0D, CHR 0xA0})"

definition isDigit :: "char \<Rightarrow> bool" where
  "isDigit c = (48 \<le> (of_char c :: nat) \<and> (of_char c :: nat) \<le> 57)"

definition digitValue :: "char \<Rightarrow> int" where
  "digitValue c = int (of_char c :: nat) - 48"

definition digitsValue :: "string \<Rightarrow> int" where
  "digitsValue ds = foldl (\<lambda>acc c. 10 * acc + digitValue c) 0 ds"

definition parseInt10 :: "string \<Rightarrow> jsnum" where
  "parseInt10 s =
     (let s1 = dropWhile isWhiteSpace s;
          neg = (s1 \<noteq> [] \<and> hd s1 = CHR ''-'');
          s2 = (if s1 \<noteq> [] \<and> (hd s1 = CHR ''-'' \<or> hd s1 = CHR ''+'') then tl s1 else s1);
          ds = takeWhile isDigit s2
      in if ds = [] then NaN
         else roundDouble (if neg then - digitsValue ds else digitsValue ds))"

subsection \<open>One pass through the loop body\<close>

datatype step =
    Return json
  | Throw HttpError
  | Retry jsnum HttpError

text \<open>The decoded payload: JSON when the content type says so, the text otherwise.\<close>

definition payloadOf :: "Response \<Rightarrow> json" where
  "payloadOf r =
     (let contentType = (if truthy (resp_contentType r) then the (resp_contentType r) else [])
      in if includes_str contentType ''application/json''
         then (case resp_json r of None \<Rightarrow> JNull | Some v \<Rightarrow> v)
         else (case resp_text r of None \<Rightarrow> JNull | Some t \<Rightarrow> JString t))"

text \<open>\<open>payload?.message || payload?.error || response.statusText\<close>\<close>

definition errorMessage :: "json \<Rightarrow> string \<Rightarrow> json" where
  "errorMessage payload statusText =
     (case json_member payload ''message'' of
        Some m \<Rightarrow> if json_truthy m then m
                  else (case json_member payload ''error'' of
                          Some e \<Rightarrow> if json_truthy e then e else JString statusText
                        | None \<Rightarrow> JString statusText)
      | None \<Rightarrow> (case json_member payload ''error'' of
                   Some e \<Rightarrow> if json_truthy e then e else JString statusText
                 | None \<Rightarrow> JString statusText))"

text \<open>
  The delay handed to \<open>sleep\<close>, in milliseconds: \<open>baseDelay * Math.pow(2, attempt)\<close>, or
  \<open>parseInt(retryAfter, 10) * 1000\<close> for a response with a non-empty \<open>retry-after\<close>.
\<close>

definition backoffDelay :: "RequestOptions \<Rightarrow> nat \<Rightarrow> jsnum" where
  "backoffDelay options attempt = js_mul (roundDouble (baseDelay options)) (pow2 attempt)"

definition retryDelay :: "RequestOptions \<Rightarrow> nat \<Rightarrow> Response \<Rightarrow> jsnum" where
  "retryDelay options attempt r =
     (if truthy (resp_retryAfter r)
      then js_mul (parseInt10 (the (resp_retryAfter r))) (Fin 1000)
      else backoffDelay options attempt)"


text \<open>The three errors that the \<open>catch\<close> block constructs.\<close>

definition cancelledError :: HttpError where
  "cancelledError = newHttpError 0 (JString ''Request cancelled by user'') None"

definition timeoutError :: HttpError where
  "timeoutError = newHttpError 0 (JString ''Request timeout after 180 seconds'') None"

definition networkError :: "string \<Rightarrow> HttpError" where
  "networkError msg = newHttpError 0 (JString (if msg \<noteq> [] then msg else ''Network error'')) None"

definition attemptStep :: "RequestOptions \<Rightarrow> nat \<Rightarrow> attempt_env \<Rightarrow> step" where
  "attemptStep options attempt env =
     (case fetched env of
        Rejected name msg \<Rightarrow>
          if name = ''AbortError'' then
            (if opt_signal options \<and> signal_aborted env
             then Throw cancelledError
             else Throw timeoutError)
          else
            (let lastError = networkError msg
             in if int attempt < maxRetries options
                then Retry (backoffDelay options attempt) lastError
                else Throw lastError)
      | Resolved response \<Rightarrow>
          (let payload = payloadOf response
           in if \<not> resp_ok response then
                (let lastError = newHttpError (resp_status response)
                                   (errorMessage payload (resp_statusText response)) (Some payload)
                 in if resp_status response \<in> RETRYABLE_STATUSES \<and> int attempt < maxRetries options
                    then Retry (retryDelay options attempt response) lastError
                    else Throw lastError)
              else Return payload))"

subsection \<open>The controller of an attempt\<close>

text \<open>
  Each attempt makes a fresh \<open>AbortController\<close>, starts a timer of 180 seconds that aborts
  it, and, when the caller passed a signal, adds a listener to that signal that aborts it;
  \<open>fetch\<close> runs under the controller's signal, and the timer is cleared once \<open>fetch\<close> has
  settled. A run of an attempt says what the network would do if nothing aborted the
  attempt, whether the 180 seconds pass while \<open>fetch\<close> is pending, whether the caller's signal
  was aborted already when the attempt began, and when the caller's signal fires during
  the attempt.
\<close>

datatype moment = Never | WhileFetching | WhileReadingBody

record attempt_run =
  network :: fetch_outcome
  timer_elapses :: bool
  signal_before :: bool
  signal_fires :: moment

text \<open>
  The listener runs when the signal fires after it was added: a signal that was aborted
  before does not fire again.
\<close>

definition listenerRuns :: "RequestOptions \<Rightarrow> attempt_run \<Rightarrow> moment \<Rightarrow> bool" where
  "listenerRuns options run m = (opt_signal options \<and> \<not> signal_before run \<and> signal_fires run = m)"

text \<open>
  What the loop body meets in a run. An abort of the controller while \<open>fetch\<close> is pending
  rejects \<open>fetch\<close> with an \<open>AbortError\<close>; an abort while the body is read rejects
  \<open>response.json()\<close> and \<open>response.text()\<close>.
\<close>

definition observe :: "RequestOptions \<Rightarrow> attempt_run \<Rightarrow> attempt_env" where
  "observe options run =
     (if timer_elapses run \<or> listenerRuns options run WhileFetching then
        \<lparr>fetched = Rejected ''AbortError'' ''This operation was aborted'',
         signal_aborted = (signal_before run \<or> signal_fires run = WhileFetching)\<rparr>
      else
        (case network run of
           Rejected name msg \<Rightarrow>
             \<lparr>fetched = Rejected name msg, signal_aborted = signal_before run\<rparr>
         | Resolved r \<Rightarrow>
             \<lparr>fetched = Resolved (if listenerRuns options run WhileReadingBody
                                  then r\<lparr>resp_json := None, resp_text := None\<rparr> else r),
              signal_aborted = (signal_before run \<or> signal_fires run \<noteq> Never)\<rparr>))"

definition observed :: "RequestOptions \<Rightarrow> (nat \<Rightarrow> attempt_run) \<Rightarrow> nat \<Rightarrow> attempt_env" where
  "observed options runs i = observe options (runs i)"

subsection \<open>The retry loop\<close>

text \<open>
  What one call of \<open>request\<close> does: its final outcome (the thrown \<open>HttpError\<close> or the returned
  payload), the attempt indices at which it called \<open>fetch\<close>, in order, and the delays it
  handed to \<open>sleep\<close> between them. The environment gives, for each attempt index, what that attempt meets.
\<close>

record trace =
  outcome :: "HttpError + json"
  attempts :: "nat list"
  delays :: "jsnum list"

function retryLoop ::
  "RequestOptions \<Rightarrow> (nat \<Rightarrow> attempt_env) \<Rightarrow> nat \<Rightarrow> HttpError option \<Rightarrow> trace" where
  "retryLoop options env attempt lastError =
     (if int attempt \<le> maxRetries options then
        (case attemptStep options attempt (env attempt) of
           Return payload \<Rightarrow> \<lparr>outcome = Inr payload, attempts = [attempt], delays = []\<rparr>
         | Throw e \<Rightarrow> \<lparr>outcome = Inl e, attempts = [attempt], delays = []\<rparr>
         | Retry delay e \<Rightarrow>
             (let rest = retryLoop options env (Suc attempt) (Some e)
              in rest\<lparr>attempts := attempt # attempts rest, delays := delay # delays rest\<rparr>))
      else
        \<lparr>outcome = Inl (case lastError of
                          Some e \<Rightarrow> e
                        | None \<Rightarrow> newHttpError 0 (JString ''Request failed after retries'') None),
         attempts = [], delays = []\<rparr>)"
  by pat_completeness auto
termination
  by (relation "measure (\<lambda>(options, env, attempt, lastError). nat (maxRetries options + 1 - int attempt))")
     auto

declare retryLoop.simps [simp del]

text \<open>
  \<open>fetchOptions\<close> is built once: every attempt of the call sends the same method, headers
  and body to the same URL.
\<close>

record fetch_options =
  fo_url :: string
  fo_method :: string
  fo_headers :: "string \<rightharpoonup> string"
  fo_body :: "json option"

definition fetchOptions :: "Config \<Rightarrow> string \<Rightarrow> RequestOptions \<Rightarrow> fetch_options" where
  "fetchOptions config path options =
     \<lparr>fo_url = requestUrl config path, fo_method = requestMethod options,
      fo_headers = requestHeaders config, fo_body = opt_body options\<rparr>"

record call = trace +
  sent :: fetch_options

definition request :: "Config \<Rightarrow> string \<Rightarrow> RequestOptions \<Rightarrow> (nat \<Rightarrow> attempt_env) \<Rightarrow> call" where
  "request config path options env =
     (let t = retryLoop options env 0 None
      in \<lparr>outcome = outcome t, attempts = attempts t, delays = delays t,
          sent = fetchOptions config path options\<rparr>)"

section \<open>The ambient overlay: \<open>auth-context.ts\<close>\<close>

record AuthOverride =
  apiKey :: "string option"
  jwt :: "string option"
  workspaceId :: "string option"
  projectId :: "string option"

text \<open>
  \<open>AsyncLocalStorage\<close> gives the callback of \<open>run\<close>, and everything that callback calls, the
  value passed to \<open>run\<close>, and \<open>undefined\<close> outside any \<open>run\<close>. The store is passed
  explicitly here: \<open>None\<close> outside a scope, \<open>Some v\<close> inside \<open>run(v, _)\<close>.
\<close>

type_synonym store = "AuthOverride option option"

definition runWithAuthOverride :: "AuthOverride option \<Rightarrow> (store \<Rightarrow> 'a) \<Rightarrow> 'a" where
  "runWithAuthOverride override fn = fn (Some override)"

definition getAuthOverride :: "store \<Rightarrow> AuthOverride option" where
  "getAuthOverride st = (case st of None \<Rightarrow> None | Some v \<Rightarrow> v)"

text \<open>
  A call of \<open>request\<close> by code that runs under the ambient store \<open>st\<close>. The body of
  \<open>request\<close> reads its three arguments; it does not call \<open>getAuthOverride\<close>.
\<close>

definition requestWithin ::
  "Config \<Rightarrow> string \<Rightarrow> RequestOptions \<Rightarrow> (nat \<Rightarrow> attempt_env) \<Rightarrow> store \<Rightarrow> call" where
  "requestWithin config path options env st = request config path options env"

section \<open>The gateway: \<open>http-gateway.ts\<close>\<close>

subsection \<open>Headers\<close>

datatype header_value = Single string | Multi "string list"

type_synonym headers = "string \<rightharpoonup> header_value"

text \<open>An array is truthy even when empty, and \<open>value[0]\<close> of an empty array is \<open>undefined\<close>.\<close>

definition normalizeHeaderValue :: "header_value option \<Rightarrow> string option" where
  "normalizeHeaderValue v =
     (case v of
        None \<Rightarrow> None
      | Some (Single s) \<Rightarrow> if s = [] then None else Some s
      | Some (Multi xs) \<Rightarrow> (case xs of [] \<Rightarrow> None | x # _ \<Rightarrow> Some x))"

text \<open>\<open>s.split(c)\<close> for a one-character separator.\<close>

fun split_str :: "char \<Rightarrow> string \<Rightarrow> string list" where
  "split_str c [] = [[]]"
| "split_str c (x # xs) =
     (if x = c then [] # split_str c xs
      else (case split_str c xs of [] \<Rightarrow> [[x]] | y # ys \<Rightarrow> (x # y) # ys))"

definition trim :: "string \<Rightarrow> string" where
  "trim s = rev (dropWhile isWhiteSpace (rev (dropWhile isWhiteSpace s)))"

text \<open>Header values are Latin-1 strings; \<open>toLowerCase\<close> on those code points.\<close>

definition lowerChar :: "char \<Rightarrow> char" where
  "lowerChar c =
     (let n = (of_char c :: nat)
      in if (65 \<le> n \<and> n \<le> 90) \<or> (192 \<le> n \<and> n \<le> 222 \<and> n \<noteq> 215)
         then char_of (n + 32) else c)"

definition toLowerCase :: "string \<Rightarrow> string" where
  "toLowerCase s = map lowerChar s"

definition looksLikeJwt :: "string \<Rightarrow> bool" where
  "looksLikeJwt token =
     (let parts = split_str (CHR ''.'') token
      in length parts = 3 \<and> list_all (\<lambda>part. length part > 0) parts)"

subsection \<open>\<open>extractAuthOverride\<close>\<close>

datatype token_type = Api_key | Jwt

definition bearerToken :: "string option \<Rightarrow> string option" where
  "bearerToken authHeader =
     (if truthy authHeader then
        (case split_str (CHR '' '') (the authHeader) of
           [] \<Rightarrow> None
         | type # rest \<Rightarrow>
             if type \<noteq> [] \<and> toLowerCase type = ''bearer'' \<and> length rest > 0
             then Some (trim (join_str '' '' rest)) else None)
      else None)"

text \<open>The header fields the function reads, in the order it reads them.\<close>

definition headerApiKey :: "headers \<Rightarrow> string option" where
  "headerApiKey hs = js_or (normalizeHeaderValue (hs ''x-api-key''))
                           (normalizeHeaderValue (hs ''x-contextstream-api-key''))"

definition headerJwt :: "headers \<Rightarrow> string option" where
  "headerJwt hs = normalizeHeaderValue (hs ''x-contextstream-jwt'')"

definition headerBearer :: "headers \<Rightarrow> string option" where
  "headerBearer hs = bearerToken (normalizeHeaderValue (hs ''authorization''))"

definition headerWorkspaceId :: "headers \<Rightarrow> string option" where
  "headerWorkspaceId hs = js_or (normalizeHeaderValue (hs ''x-contextstream-workspace-id''))
                                (normalizeHeaderValue (hs ''x-workspace-id''))"

definition headerProjectId :: "headers \<Rightarrow> string option" where
  "headerProjectId hs = js_or (normalizeHeaderValue (hs ''x-contextstream-project-id''))
                              (normalizeHeaderValue (hs ''x-project-id''))"

definition extractAuthOverride ::
  "headers \<Rightarrow> AuthOverride option \<Rightarrow> AuthOverride option \<times> token_type option" where
  "extractAuthOverride hs fallback =
     (let apiKey = headerApiKey hs;
          jwtHeader = headerJwt hs;
          token = headerBearer hs;
          workspaceId = headerWorkspaceId hs;
          projectId = headerProjectId hs
      in if truthy jwtHeader then
           (Some \<lparr>apiKey = None, jwt = jwtHeader, workspaceId = workspaceId, projectId = projectId\<rparr>,
            Some Jwt)
         else if truthy apiKey then
           (Some \<lparr>apiKey = apiKey, jwt = None, workspaceId = workspaceId, projectId = projectId\<rparr>,
            Some Api_key)
         else if truthy token then
           (if looksLikeJwt (the token) then
              (Some \<lparr>apiKey = None, jwt = token, workspaceId = workspaceId, projectId = projectId\<rparr>,
               Some Jwt)
            else
              (Some \<lparr>apiKey = token, jwt = None, workspaceId = workspaceId, projectId = projectId\<rparr>,
               Some Api_key))
         else if truthy workspaceId \<or> truthy projectId then
           (Some \<lparr>apiKey = None, jwt = None, workspaceId = workspaceId, projectId = projectId\<rparr>,
            None)
         else (fallback, None))"

subsection \<open>Sessions\<close>

text \<open>
  A \<open>SessionEntry\<close> owns a protocol server, a transport, a session manager and a client,
  which the gateway only passes on; its own fields are the overlay and the two time stamps.
\<close>

record SessionEntry =
  authOverride :: "AuthOverride option"
  createdAt :: nat
  lastSeenAt :: nat

type_synonym sessions = "string \<rightharpoonup> SessionEntry"

text \<open>
  What the transport does with one request, as far as the gateway sees it: whether
  \<open>handleRequest\<close> rejects (with a message), the session identifier the transport has
  afterwards, and the session it reported closed (\<open>onsessionclosed\<close>) while handling.
\<close>

record transport_result =
  tr_thrown :: "string option"
  tr_sessionId :: "string option"
  tr_closed :: "string option"

text \<open>
  The environment of one inbound request: whether \<open>createSession\<close> throws (\<open>loadConfig\<close>
  does when the configuration is invalid), the two readings of \<open>Date.now()\<close>, and the
  transport's behaviour under the ambient store it runs in.
\<close>

record gateway_env =
  create_throws :: "string option"
  now_created :: nat
  now_seen :: nat
  handleRequest :: "store \<Rightarrow> transport_result"

definition createSession :: "gateway_env \<Rightarrow> string + SessionEntry" where
  "createSession env =
     (case create_throws env of
        Some msg \<Rightarrow> Inl msg
      | None \<Rightarrow> Inr \<lparr>authOverride = None, createdAt = now_created env, lastSeenAt = now_created env\<rparr>)"

datatype reply =
    WriteJson int "(string \<times> string) list"
  | ByTransport
  | Thrown string

text \<open>
  The result of \<open>handleMcpRequest\<close>: the reply, the registry afterwards, whether
  \<open>createSession\<close> was called, the ambient store the transport ran in (\<open>None\<close> when it did
  not run), and the \<open>auth\<close> attached to the request.
\<close>

record mcp_result =
  res_reply :: reply
  res_sessions :: sessions
  res_created :: bool
  res_scope :: store
  res_auth :: "(string \<times> token_type) option"

definition overrideToken :: "AuthOverride option \<Rightarrow> string option" where
  "overrideToken override =
     (case override of None \<Rightarrow> None | Some ov \<Rightarrow> js_or (jwt ov) (apiKey ov))"

text \<open>The two rejections of \<open>handleMcpRequest\<close>.\<close>

definition unauthorizedReply :: reply where
  "unauthorizedReply =
     WriteJson 401
       [(''error'', ''Missing authorization token. Use Authorization: Bearer <API_KEY> or X-API-Key.'')]"

definition unknownSessionReply :: reply where
  "unknownSessionReply =
     WriteJson 404 [(''error'', ''Unknown MCP session. Re-initialize your MCP connection.'')]"

text \<open>
  \<open>sessionId\<close>, \<open>existingSession\<close> and \<open>existingSession?.authOverride ?? null\<close>, the first
  three values the function computes.
\<close>

definition requestSessionId :: "headers \<Rightarrow> string option" where
  "requestSessionId hs = normalizeHeaderValue (hs ''mcp-session-id'')"

definition existingSession :: "sessions \<Rightarrow> headers \<Rightarrow> SessionEntry option" where
  "existingSession sess hs =
     (if truthy (requestSessionId hs) then sess (the (requestSessionId hs)) else None)"

definition sessionOverlay :: "sessions \<Rightarrow> headers \<Rightarrow> AuthOverride option" where
  "sessionOverlay sess hs = (case existingSession sess hs of None \<Rightarrow> None | Some e \<Rightarrow> authOverride e)"

definition handleMcpRequest ::
  "bool \<Rightarrow> gateway_env \<Rightarrow> headers \<Rightarrow> sessions \<Rightarrow> mcp_result" where
  "handleMcpRequest requireAuth env hs sess =
     (let sessionId = requestSessionId hs;
          existing = existingSession sess hs;
          (override, tokenType) = extractAuthOverride hs (sessionOverlay sess hs);
          token = overrideToken override
      in if requireAuth \<and> \<not> truthy token then
           \<lparr>res_reply = unauthorizedReply,
            res_sessions = sess, res_created = False, res_scope = None, res_auth = None\<rparr>
         else if truthy sessionId \<and> existing = None then
           \<lparr>res_reply = unknownSessionReply,
            res_sessions = sess, res_created = False, res_scope = None, res_auth = None\<rparr>
         else
           (case (case existing of Some e \<Rightarrow> Inr e | None \<Rightarrow> createSession env) of
              Inl msg \<Rightarrow>
                \<lparr>res_reply = Thrown msg, res_sessions = sess, res_created = True,
                 res_scope = None, res_auth = None\<rparr>
            | Inr entry0 \<Rightarrow>
                (let entry1 = entry0\<lparr>lastSeenAt := now_seen env\<rparr>;
                     entry = (if override \<noteq> None then entry1\<lparr>authOverride := override\<rparr> else entry1);
                     sess1 = (if existing \<noteq> None then sess(the sessionId \<mapsto> entry) else sess);
                     auth = (if truthy token \<and> tokenType \<noteq> None
                             then Some (the token, the tokenType) else None);
                     (scope, t) = runWithAuthOverride override (\<lambda>st. (st, handleRequest env st));
                     sess2 = (case tr_closed t of None \<Rightarrow> sess1 | Some sid \<Rightarrow> sess1(sid := None))
                 in case tr_thrown t of
                      Some msg \<Rightarrow>
                        \<lparr>res_reply = Thrown msg, res_sessions = sess2,
                         res_created = (existing = None), res_scope = scope, res_auth = auth\<rparr>
                    | None \<Rightarrow>
                        \<lparr>res_reply = ByTransport,
                         res_sessions = (if existing = None \<and> truthy (tr_sessionId t)
                                         then sess2(the (tr_sessionId t) \<mapsto> entry) else sess2),
                         res_created = (existing = None), res_scope = scope, res_auth = auth\<rparr>)))"

subsection \<open>The HTTP front door: the handler of \<open>runHttpGateway\<close>\<close>

text \<open>
  The module constants read from the process environment, and \<open>VERSION\<close>, are parameters.
\<close>

record gateway_config =
  MCP_PATH :: string
  REQUIRE_AUTH :: bool
  VERSION :: string

text \<open>
  An inbound request: \<open>req.url\<close>, the \<open>pathname\<close> that \<open>new URL(req.url, base)\<close> gives
  (\<open>None\<close> when the constructor throws), \<open>req.method\<close> and \<open>req.headers\<close>.
\<close>

record HttpRequest =
  req_url :: "string option"
  req_pathname :: "string option"
  req_method :: "string option"
  req_headers :: headers

record gateway_result =
  gw_reply :: reply
  gw_sessions :: sessions
  gw_created :: bool
  gw_scope :: store

definition serverHandler ::
  "gateway_config \<Rightarrow> gateway_env \<Rightarrow> HttpRequest \<Rightarrow> sessions \<Rightarrow> gateway_result" where
  "serverHandler cfg env req sess =
     (if \<not> truthy (req_url req) then
        \<lparr>gw_reply = WriteJson 404 [(''error'', ''Not found'')],
         gw_sessions = sess, gw_created = False, gw_scope = None\<rparr>
      else (case req_pathname req of
              None \<Rightarrow>
                \<lparr>gw_reply = Thrown ''Invalid URL'', gw_sessions = sess, gw_created = False,
                 gw_scope = None\<rparr>
            | Some pathname \<Rightarrow>
                if pathname = ''/health'' then
                  \<lparr>gw_reply = WriteJson 200 [(''status'', ''ok''), (''version'', VERSION cfg)],
                   gw_sessions = sess, gw_created = False, gw_scope = None\<rparr>
                else if pathname \<noteq> MCP_PATH cfg then
                  \<lparr>gw_reply = WriteJson 404 [(''error'', ''Not found'')],
                   gw_sessions = sess, gw_created = False, gw_scope = None\<rparr>
                else if (case req_method req of None \<Rightarrow> [] | Some m \<Rightarrow> m)
                          \<notin> set [''GET'', ''POST'', ''DELETE''] then
                  \<lparr>gw_reply = WriteJson 405 [(''error'', ''Method not allowed'')],
                   gw_sessions = sess, gw_created = False, gw_scope = None\<rparr>
                else
                  (let r = handleMcpRequest (REQUIRE_AUTH cfg) env (req_headers req) sess
                   in \<lparr>gw_reply =
                          (case res_reply r of
                             Thrown msg \<Rightarrow>
                               WriteJson 500
                                 [(''error'', if msg \<noteq> [] then msg else ''Internal server error'')]
                           | other \<Rightarrow> other),
                        gw_sessions = res_sessions r, gw_created = res_created r,
                        gw_scope = res_scope r\<rparr>)))"

section \<open>Notions the properties are stated with\<close>

subsection \<open>Attempts\<close>

text \<open>
  A network-level failure: \<open>fetch\<close> rejected, and not because the attempt was aborted.
\<close>

definition networkFailure :: "attempt_env \<Rightarrow> bool" where
  "networkFailure ev = (case fetched ev of Rejected name msg \<Rightarrow> name \<noteq> ''AbortError'' | Resolved r \<Rightarrow> False)"

text \<open>
  The attempt was aborted and the caller's signal is not set: only the 180 second timer of
  the attempt can have aborted it.
\<close>

definition timedOut :: "RequestOptions \<Rightarrow> attempt_env \<Rightarrow> bool" where
  "timedOut options ev =
     (case fetched ev of
        Rejected name msg \<Rightarrow> name = ''AbortError'' \<and> \<not> (opt_signal options \<and> signal_aborted ev)
      | Resolved r \<Rightarrow> False)"

text \<open>The attempt was aborted while in flight and the caller's signal is set.\<close>

definition cancelledByCaller :: "RequestOptions \<Rightarrow> attempt_env \<Rightarrow> bool" where
  "cancelledByCaller options ev =
     (case fetched ev of
        Rejected name msg \<Rightarrow> name = ''AbortError'' \<and> opt_signal options \<and> signal_aborted ev
      | Resolved r \<Rightarrow> False)"

text \<open>The caller's signal fires while the attempt is in flight.\<close>

definition callerCancelsInFlight :: "RequestOptions \<Rightarrow> attempt_run \<Rightarrow> bool" where
  "callerCancelsInFlight options run =
     (opt_signal options \<and> \<not> signal_before run \<and> signal_fires run \<noteq> Never)"

text \<open>The failed response of an attempt, if it got one.\<close>

definition failedResponse :: "attempt_env \<Rightarrow> Response option" where
  "failedResponse ev =
     (case fetched ev of
        Resolved r \<Rightarrow> if resp_ok r then None else Some r
      | Rejected name msg \<Rightarrow> None)"

text \<open>The classified kind of a failed response.\<close>

definition failedKind :: "attempt_env \<Rightarrow> error_code option" where
  "failedKind ev = map_option (\<lambda>r. statusToCode (resp_status r)) (failedResponse ev)"

definition retried :: "RequestOptions \<Rightarrow> nat \<Rightarrow> attempt_env \<Rightarrow> bool" where
  "retried options attempt ev =
     (case attemptStep options attempt ev of Retry d e \<Rightarrow> True | Return p \<Rightarrow> False | Throw e \<Rightarrow> False)"

subsection \<open>Kinds that end a call\<close>

text \<open>
  A failed response whose kind is none of the transient ones, the status 408 set apart: it
  classifies as unknown and is in \<open>RETRYABLE_STATUSES\<close>.
\<close>

definition terminalKind :: "attempt_env \<Rightarrow> bool" where
  "terminalKind ev =
     (case failedKind ev of
        None \<Rightarrow> False
      | Some k \<Rightarrow> k \<in> {BAD_REQUEST, UNAUTHORIZED, FORBIDDEN, NOT_FOUND, CONFLICT, VALIDATION_ERROR}
                  \<or> (k = UNKNOWN_ERROR \<and> map_option resp_status (failedResponse ev) \<noteq> Some 408))"

subsection \<open>Requests to the gateway\<close>

text \<open>A request with scope headers and no credential in any of the three forms.\<close>

definition scopeOnly :: "headers \<Rightarrow> bool" where
  "scopeOnly hs =
     (\<not> truthy (headerJwt hs) \<and> \<not> truthy (headerApiKey hs) \<and> \<not> truthy (headerBearer hs)
      \<and> (truthy (headerWorkspaceId hs) \<or> truthy (headerProjectId hs)))"

text \<open>The overlay that \<open>extractAuthOverride\<close> builds from the scope headers alone.\<close>

definition scopeOverlay :: "headers \<Rightarrow> AuthOverride" where
  "scopeOverlay hs =
     \<lparr>apiKey = None, jwt = None, workspaceId = headerWorkspaceId hs, projectId = headerProjectId hs\<rparr>"

definition hasCredential :: "AuthOverride option \<Rightarrow> bool" where
  "hasCredential override = truthy (overrideToken override)"

section \<open>Concrete inputs\<close>

definition ex_config :: Config where
  "ex_config = \<lparr>cfg_apiUrl = ''https://api.example.com/'', cfg_apiKey = Some ''key-from-env'',
                 cfg_jwt = None, cfg_userAgent = ''contextstream-mcp/0.1.0''\<rparr>"

definition ex_options :: RequestOptions where
  "ex_options = \<lparr>opt_method = None, opt_body = None, opt_signal = False,
                  opt_retries = None, opt_retryDelay = None\<rparr>"

definition ex_options_signal :: RequestOptions where
  "ex_options_signal = ex_options\<lparr>opt_signal := True\<rparr>"

definition ex_response :: "int \<Rightarrow> string option \<Rightarrow> Response" where
  "ex_response st retryAfter =
     \<lparr>resp_status = st, resp_statusText = ''status text'',
      resp_contentType = Some ''application/json; charset=utf-8'', resp_retryAfter = retryAfter,
      resp_json = Some (JObject [(''message'', JString ''from the body'')]), resp_text = None\<rparr>"

definition responds :: "int \<Rightarrow> string option \<Rightarrow> attempt_env" where
  "responds st retryAfter = \<lparr>fetched = Resolved (ex_response st retryAfter), signal_aborted = False\<rparr>"

definition aborts :: "bool \<Rightarrow> attempt_env" where
  "aborts by_caller =
     \<lparr>fetched = Rejected ''AbortError'' ''This operation was aborted'', signal_aborted = by_caller\<rparr>"

definition unreachable :: attempt_env where
  "unreachable = \<lparr>fetched = Rejected ''TypeError'' ''fetch failed'', signal_aborted = False\<rparr>"

text \<open>An environment that plays a script and then answers 200.\<close>

definition scripted :: "attempt_env list \<Rightarrow> nat \<Rightarrow> attempt_env" where
  "scripted evs i = (if i < length evs then evs ! i else responds 200 None)"

text \<open>
  A call whose first attempt receives the headers of a reply and whose caller aborts while
  the body is read; the second attempt, made with the signal aborted already, is answered.
\<close>

definition ex_run_cancel_in_body :: "int \<Rightarrow> attempt_run" where
  "ex_run_cancel_in_body st =
     \<lparr>network = Resolved (ex_response st None), timer_elapses = False, signal_before = False,
      signal_fires = WhileReadingBody\<rparr>"

definition ex_run_cancel_in_fetch :: attempt_run where
  "ex_run_cancel_in_fetch =
     \<lparr>network = Resolved (ex_response 503 None), timer_elapses = False, signal_before = False,
      signal_fires = WhileFetching\<rparr>"

definition ex_run_after_cancel :: attempt_run where
  "ex_run_after_cancel =
     \<lparr>network = Resolved (ex_response 200 None), timer_elapses = False, signal_before = True,
      signal_fires = Never\<rparr>"

definition ex_runs :: "attempt_run \<Rightarrow> nat \<Rightarrow> attempt_run" where
  "ex_runs first i = (if i = 0 then first else ex_run_after_cancel)"

definition ex_config_no_credential :: Config where
  "ex_config_no_credential = ex_config\<lparr>cfg_apiKey := None\<rparr>"

definition ex_prior :: AuthOverride where
  "ex_prior = \<lparr>apiKey = Some ''key-1'', jwt = None, workspaceId = Some ''ws-old'', projectId = None\<rparr>"

definition ex_sessions :: sessions where
  "ex_sessions = [''s1'' \<mapsto> \<lparr>authOverride = Some ex_prior, createdAt = 10, lastSeenAt = 20\<rparr>]"

definition ex_gateway_env :: gateway_env where
  "ex_gateway_env =
     \<lparr>create_throws = None, now_created = 30, now_seen = 40,
      handleRequest = (\<lambda>st. \<lparr>tr_thrown = None, tr_sessionId = Some ''s2'', tr_closed = None\<rparr>)\<rparr>"

definition ex_scope_headers :: headers where
  "ex_scope_headers = [''mcp-session-id'' \<mapsto> Single ''s1'', ''x-workspace-id'' \<mapsto> Single ''ws-new'']"

definition ex_ghost_headers :: headers where
  "ex_ghost_headers = [''mcp-session-id'' \<mapsto> Single ''ghost'']"

definition ex_ghost_key_headers :: headers where
  "ex_ghost_key_headers = [''mcp-session-id'' \<mapsto> Single ''ghost'', ''x-api-key'' \<mapsto> Single ''key-1'']"

definition ex_gateway_config :: gateway_config where
  "ex_gateway_config = \<lparr>MCP_PATH = ''/mcp'', REQUIRE_AUTH = True, VERSION = ''0.4.42''\<rparr>"

definition ex_health_request :: HttpRequest where
  "ex_health_request =
     \<lparr>req_url = Some ''/health?probe=1'', req_pathname = Some ''/health'', req_method = Some ''GET'',
      req_headers = Map.empty\<rparr>"

section \<open>The retry loop, unfolded\<close>

lemma retryLoop_stop:
  "\<not> int a \<le> maxRetries options \<Longrightarrow>
   retryLoop options env a lastE =
     \<lparr>outcome = Inl (case lastE of Some e \<Rightarrow> e
                     | None \<Rightarrow> newHttpError 0 (JString ''Request failed after retries'') None),
      attempts = [], delays = []\<rparr>"
  by (subst retryLoop.simps) simp

lemma retryLoop_Return:
  "int a \<le> maxRetries options \<Longrightarrow> attemptStep options a (env a) = Return p \<Longrightarrow>
   retryLoop options env a lastE = \<lparr>outcome = Inr p, attempts = [a], delays = []\<rparr>"
  by (subst retryLoop.simps) simp

lemma retryLoop_Throw:
  "int a \<le> maxRetries options \<Longrightarrow> attemptStep options a (env a) = Throw e \<Longrightarrow>
   retryLoop options env a lastE = \<lparr>outcome = Inl e, attempts = [a], delays = []\<rparr>"
  by (subst retryLoop.simps) simp

lemma retryLoop_Retry:
  assumes "int a \<le> maxRetries options" and "attemptStep options a (env a) = Retry d e"
  shows "outcome (retryLoop options env a lastE) = outcome (retryLoop options env (Suc a) (Some e))"
    and "attempts (retryLoop options env a lastE) = a # attempts (retryLoop options env (Suc a) (Some e))"
    and "delays (retryLoop options env a lastE) = d # delays (retryLoop options env (Suc a) (Some e))"
  using assms by (subst retryLoop.simps, simp add: Let_def)+

lemma attemptStep_Retry_budget:
  "attemptStep options a ev = Retry d e \<Longrightarrow> int a < maxRetries options"
  by (auto simp: attemptStep_def Let_def split: fetch_outcome.splits if_splits)

lemma retryLoop_attempts_Cons:
  "int a \<le> maxRetries options \<Longrightarrow>
   \<exists>rest. attempts (retryLoop options env a lastE) = a # rest"
  by (cases "attemptStep options a (env a)")
     (simp_all add: retryLoop_Return retryLoop_Throw retryLoop_Retry(2)[where env = env])

lemma retryLoop_attempts_ex:
  "\<exists>n. attempts (retryLoop options env a lastE) = [a ..< a + n]"
proof (induction options env a lastE rule: retryLoop.induct)
  case (1 options env a lastE)
  show ?case
  proof (cases "int a \<le> maxRetries options")
    case False
    then have "attempts (retryLoop options env a lastE) = [a ..< a + 0]"
      by (simp add: retryLoop_stop)
    then show ?thesis by blast
  next
    case True
    show ?thesis
    proof (cases "attemptStep options a (env a)")
      case (Return p)
      with True have "attempts (retryLoop options env a lastE) = [a ..< a + 1]"
        by (simp add: retryLoop_Return)
      then show ?thesis by blast
    next
      case (Throw e)
      with True have "attempts (retryLoop options env a lastE) = [a ..< a + 1]"
        by (simp add: retryLoop_Throw)
      then show ?thesis by blast
    next
      case (Retry d e)
      from "1.IH"[OF True Retry] obtain n
        where ih: "attempts (retryLoop options env (Suc a) (Some e)) = [Suc a ..< Suc a + n]"
        by blast
      have "attempts (retryLoop options env a lastE) = a # [Suc a ..< Suc a + n]"
        using retryLoop_Retry(2)[where env = env, OF True Retry] ih by simp
      also have "\<dots> = [a ..< a + Suc n]"
        by (simp add: upt_conv_Cons)
      finally show ?thesis by blast
    qed
  qed
qed

lemma retryLoop_attempts_upt:
  "attempts (retryLoop options env a lastE) =
     [a ..< a + length (attempts (retryLoop options env a lastE))]"
proof -
  obtain n where n: "attempts (retryLoop options env a lastE) = [a ..< a + n]"
    using retryLoop_attempts_ex by blast
  then have "length (attempts (retryLoop options env a lastE)) = n" by simp
  with n show ?thesis by simp
qed

lemma retryLoop_length_le:
  "int (length (attempts (retryLoop options env a lastE))) \<le> max 0 (maxRetries options + 1 - int a)"
proof (induction options env a lastE rule: retryLoop.induct)
  case (1 options env a lastE)
  show ?case
  proof (cases "int a \<le> maxRetries options")
    case False
    then show ?thesis by (simp add: retryLoop_stop)
  next
    case True
    show ?thesis
    proof (cases "attemptStep options a (env a)")
      case (Return p)
      with True show ?thesis by (simp add: retryLoop_Return)
    next
      case (Throw e)
      with True show ?thesis by (simp add: retryLoop_Throw)
    next
      case (Retry d e)
      show ?thesis
        using "1.IH"[OF True Retry] True retryLoop_Retry(2)[where env = env and lastE = lastE, OF True Retry] by simp
    qed
  qed
qed

lemma retryLoop_delays_length:
  "length (delays (retryLoop options env a lastE)) = length (attempts (retryLoop options env a lastE)) - 1"
proof (induction options env a lastE rule: retryLoop.induct)
  case (1 options env a lastE)
  show ?case
  proof (cases "int a \<le> maxRetries options")
    case False
    then show ?thesis by (simp add: retryLoop_stop)
  next
    case True
    show ?thesis
    proof (cases "attemptStep options a (env a)")
      case (Return p)
      with True show ?thesis by (simp add: retryLoop_Return)
    next
      case (Throw e)
      with True show ?thesis by (simp add: retryLoop_Throw)
    next
      case (Retry d e)
      have ne: "attempts (retryLoop options env (Suc a) (Some e)) \<noteq> []"
        using retryLoop_attempts_Cons[of "Suc a" options env "Some e"] attemptStep_Retry_budget[OF Retry]
        by auto
      show ?thesis
        using "1.IH"[OF True Retry] ne retryLoop_Retry(2,3)[where env = env and lastE = lastE, OF True Retry]
        by (cases "attempts (retryLoop options env (Suc a) (Some e))") simp_all
    qed
  qed
qed


lemma retryLoop_reached:
  assumes "k \<in> set (attempts (retryLoop options env a lastE))"
  shows "case attemptStep options k (env k) of
           Return p \<Rightarrow> outcome (retryLoop options env a lastE) = Inr p
                       \<and> last (attempts (retryLoop options env a lastE)) = k
         | Throw e \<Rightarrow> outcome (retryLoop options env a lastE) = Inl e
                       \<and> last (attempts (retryLoop options env a lastE)) = k
         | Retry d e \<Rightarrow> Suc k \<in> set (attempts (retryLoop options env a lastE))
                       \<and> delays (retryLoop options env a lastE) ! (k - a) = d"
  using assms
proof (induction options env a lastE rule: retryLoop.induct)
  case (1 options env a lastE)
  show ?case
  proof (cases "int a \<le> maxRetries options")
    case False
    with "1.prems" show ?thesis by (simp add: retryLoop_stop)
  next
    case True
    show ?thesis
    proof (cases "attemptStep options a (env a)")
      case (Return p)
      with True "1.prems" show ?thesis by (simp add: retryLoop_Return)
    next
      case (Throw e)
      with True "1.prems" show ?thesis by (simp add: retryLoop_Throw)
    next
      case (Retry d e)
      let ?L = "retryLoop options env a lastE"
      let ?R = "retryLoop options env (Suc a) (Some e)"
      note unf = retryLoop_Retry[where env = env and lastE = lastE, OF True Retry]
      obtain rest where rest: "attempts ?R = Suc a # rest"
        using retryLoop_attempts_Cons[of "Suc a" options env "Some e"]
          attemptStep_Retry_budget[OF Retry] by auto
      show ?thesis
      proof (cases "k = a")
        case True
        then show ?thesis using Retry unf rest by simp
      next
        case False
        with "1.prems" unf have kR: "k \<in> set (attempts ?R)" by simp
        have "Suc a \<le> k"
          using kR retryLoop_attempts_upt[of options env "Suc a" "Some e"]
          by (metis atLeastLessThan_iff set_upt)
        then have idx: "k - a = Suc (k - Suc a)" by simp
        have lst: "last (a # attempts ?R) = last (attempts ?R)"
          using rest by simp
        from "1.IH"[OF True Retry kR] show ?thesis
          by (cases "attemptStep options k (env k)") (simp_all add: unf lst idx del: last.simps)
      qed
    qed
  qed
qed


lemma attemptStep_coded:
  "attemptStep options a ev = Throw e \<Longrightarrow> code e = statusToCode (status e)"
  "attemptStep options a ev = Retry d e \<Longrightarrow> code e = statusToCode (status e)"
  by (auto simp: attemptStep_def Let_def newHttpError_def cancelledError_def timeoutError_def
      networkError_def split: fetch_outcome.splits if_splits)

lemma retryLoop_coded:
  assumes "\<forall>e. lastE = Some e \<longrightarrow> code e = statusToCode (status e)"
    and "outcome (retryLoop options env a lastE) = Inl err"
  shows "code err = statusToCode (status err)"
  using assms
proof (induction options env a lastE rule: retryLoop.induct)
  case (1 options env a lastE)
  show ?case
  proof (cases "int a \<le> maxRetries options")
    case False
    with "1.prems" show ?thesis
      by (auto simp: retryLoop_stop newHttpError_def split: option.splits)
  next
    case True
    show ?thesis
    proof (cases "attemptStep options a (env a)")
      case (Return p)
      with True "1.prems" show ?thesis by (simp add: retryLoop_Return)
    next
      case (Throw e)
      with True "1.prems" show ?thesis by (auto simp: retryLoop_Throw attemptStep_coded(1))
    next
      case (Retry d e)
      have "outcome (retryLoop options env (Suc a) (Some e)) = Inl err"
        using "1.prems"(2) retryLoop_Retry(1)[where env = env and lastE = lastE, OF True Retry] by simp
      moreover have "\<forall>e'. Some e = Some e' \<longrightarrow> code e' = statusToCode (status e')"
        using attemptStep_coded(2)[OF Retry] by simp
      ultimately show ?thesis using "1.IH"[OF True Retry] by blast
    qed
  qed
qed

lemma request_fields:
  "outcome (request config path options env) = outcome (retryLoop options env 0 None)"
  "attempts (request config path options env) = attempts (retryLoop options env 0 None)"
  "delays (request config path options env) = delays (retryLoop options env 0 None)"
  "sent (request config path options env) = fetchOptions config path options"
  by (simp_all add: request_def Let_def)

section \<open>Reading a decimal \<open>retry-after\<close>\<close>











section \<open>Delays as doubles and as timers\<close>










section \<open>Single attempts and the whole call\<close>

lemma request_reached:
  assumes "k \<in> set (attempts (request config path options env))"
  shows "case attemptStep options k (env k) of
           Return p \<Rightarrow> outcome (request config path options env) = Inr p
                       \<and> last (attempts (request config path options env)) = k
         | Throw e \<Rightarrow> outcome (request config path options env) = Inl e
                       \<and> last (attempts (request config path options env)) = k
         | Retry d e \<Rightarrow> Suc k \<in> set (attempts (request config path options env))
                       \<and> delays (request config path options env) ! k = d"
  using retryLoop_reached[of k options env 0 None] assms
  by (cases "attemptStep options k (env k)") (simp_all add: request_fields)

lemma retried_iff:
  "retried options attempt ev \<longleftrightarrow>
     int attempt < maxRetries options \<and>
     (networkFailure ev \<or> (\<exists>r. failedResponse ev = Some r \<and> resp_status r \<in> RETRYABLE_STATUSES))"
  by (auto simp: retried_def attemptStep_def networkFailure_def failedResponse_def Let_def
      split: fetch_outcome.splits if_splits)

lemma retryable_kinds:
  "s \<in> RETRYABLE_STATUSES \<Longrightarrow>
   statusToCode s \<in> {RATE_LIMITED, INTERNAL_ERROR, BAD_GATEWAY, SERVICE_UNAVAILABLE, GATEWAY_TIMEOUT}
   \<or> s = 408"
  by (auto simp: RETRYABLE_STATUSES_def statusToCode_def)

lemma terminalKind_Throw:
  "terminalKind ev \<Longrightarrow>
   \<exists>r e. failedResponse ev = Some r \<and> attemptStep options attempt ev = Throw e \<and> status e = resp_status r"
  by (auto simp: terminalKind_def failedKind_def failedResponse_def attemptStep_def Let_def
      RETRYABLE_STATUSES_def statusToCode_def newHttpError_def
      split: fetch_outcome.splits if_splits option.splits)

lemmas ex_dispatch_defs =
  request_fields retryLoop.simps ex_options_def ex_options_signal_def scripted_def responds_def
  unreachable_def aborts_def ex_response_def attemptStep_def maxRetries_def MAX_RETRIES_def
  RETRYABLE_STATUSES_def resp_ok_def Let_def

lemma timedOut_Throw: "timedOut options ev \<Longrightarrow> attemptStep options k ev = Throw timeoutError"
  by (auto simp: timedOut_def attemptStep_def split: fetch_outcome.splits)

lemma cancelled_Throw:
  "cancelledByCaller options ev \<Longrightarrow> attemptStep options k ev = Throw cancelledError"
  by (auto simp: cancelledByCaller_def attemptStep_def split: fetch_outcome.splits)

section \<open>The caller's signal\<close>

lemma observe_cancel_while_fetching:
  "listenerRuns options run WhileFetching \<Longrightarrow> cancelledByCaller options (observe options run)"
  by (simp add: listenerRuns_def observe_def cancelledByCaller_def)

lemma cancel_while_fetching_ends_call:
  assumes "k \<in> set (attempts (request config path options (observed options runs)))"
    and "listenerRuns options (runs k) WhileFetching"
  shows "outcome (request config path options (observed options runs)) = Inl cancelledError
       \<and> last (attempts (request config path options (observed options runs))) = k"
proof -
  have "attemptStep options k (observed options runs k) = Throw cancelledError"
    using observe_cancel_while_fetching[OF assms(2)] by (simp add: observed_def cancelled_Throw)
  with request_reached[OF assms(1)] show ?thesis by simp
qed

lemmas ex_run_defs =
  observed_def observe_def listenerRuns_def ex_runs_def ex_run_cancel_in_body_def
  ex_run_cancel_in_fetch_def ex_run_after_cancel_def callerCancelsInFlight_def

section \<open>The gateway, unfolded\<close>

lemma extract_scopeOnly:
  "scopeOnly hs \<Longrightarrow> extractAuthOverride hs fallback = (Some (scopeOverlay hs), None)"
  by (simp add: scopeOnly_def extractAuthOverride_def scopeOverlay_def Let_def)

lemma scopeOverlay_no_token: "\<not> truthy (overrideToken (Some (scopeOverlay hs)))"
  by (simp add: overrideToken_def scopeOverlay_def js_or_def truthy_def)

lemma existingSession_known:
  "requestSessionId hs = Some sid \<Longrightarrow> sid \<noteq> [] \<Longrightarrow> existingSession sess hs = sess sid"
  by (simp add: existingSession_def truthy_def)

lemma sessionOverlay_unknown:
  "requestSessionId hs = Some sid \<Longrightarrow> sess sid = None \<Longrightarrow> sessionOverlay sess hs = None"
  by (simp add: sessionOverlay_def existingSession_def)

lemma requestHeaders_lookup:
  "requestHeaders config ''X-API-Key'' = (if truthy (cfg_apiKey config) then cfg_apiKey config else None)"
  "requestHeaders config ''Authorization'' =
     (if truthy (cfg_jwt config) then Some (''Bearer '' @ the (cfg_jwt config)) else None)"
  by (auto simp: requestHeaders_def Let_def truthy_def split: option.splits)

lemma requestHeaders_plain:
  "\<not> truthy (cfg_apiKey config) \<Longrightarrow> \<not> truthy (cfg_jwt config) \<Longrightarrow>
   requestHeaders config = [''Content-Type'' \<mapsto> ''application/json'',
                            ''User-Agent'' \<mapsto> cfg_userAgent config]"
  by (simp add: requestHeaders_def Let_def)

lemma hasCredential_iff:
  "hasCredential (Some ov) \<longleftrightarrow> truthy (jwt ov) \<or> truthy (apiKey ov)"
  "\<not> hasCredential None"
  by (auto simp: hasCredential_def overrideToken_def js_or_def truthy_def)

section \<open>Properties of the dispatcher\<close>

text \<open>
  Claim C7. One call of \<open>request\<close> makes at most \<open>maxRetries + 1\<close> attempts, at most 4 when
  the caller configures nothing; the attempt indices are \<open>0, 1, 2, \<dots>\<close> in this order, hence
  strictly increasing; the sleeps lie between the attempts; and the call ends with one
  outcome, a payload or one \<open>HttpError\<close> whose code is the classification of its status.
  \<open>retryLoop\<close> is a total function: whatever the attempts meet, once each of them has
  settled, the call produces this outcome.
\<close>

theorem request_attempts_bounded:
  "int (length (attempts (request config path options env))) \<le> max 0 (maxRetries options + 1)
   \<and> (opt_retries options = None \<longrightarrow> length (attempts (request config path options env)) \<le> 4)
   \<and> attempts (request config path options env)
         = [0 ..< length (attempts (request config path options env))]
   \<and> sorted_wrt (<) (attempts (request config path options env))
   \<and> length (delays (request config path options env))
         = length (attempts (request config path options env)) - 1
   \<and> (\<forall>err. outcome (request config path options env) = Inl err
            \<longrightarrow> code err = statusToCode (status err))"
proof -
  let ?r = "request config path options env"
  have bound: "int (length (attempts ?r)) \<le> max 0 (maxRetries options + 1)"
    using retryLoop_length_le[of options env 0 None] by (simp add: request_fields)
  have dflt: "opt_retries options = None \<longrightarrow> length (attempts ?r) \<le> 4"
    using bound by (auto simp: maxRetries_def MAX_RETRIES_def)
  have upt: "attempts ?r = [0 ..< length (attempts ?r)]"
    using retryLoop_attempts_upt[of options env 0 None] by (simp add: request_fields)
  have incr: "sorted_wrt (<) (attempts ?r)"
    by (subst upt) simp
  have dl: "length (delays ?r) = length (attempts ?r) - 1"
    using retryLoop_delays_length[of options env 0 None] by (simp add: request_fields)
  have coded: "\<forall>err. outcome ?r = Inl err \<longrightarrow> code err = statusToCode (status err)"
    using retryLoop_coded[of None options env 0] by (simp add: request_fields)
  from bound dflt upt incr dl coded show ?thesis by blast
qed

theorem request_attempts_bounded_witness:
  "opt_retries ex_options = None
   \<and> attempts (request ex_config ''/search'' ex_options (scripted [responds 503 None, unreachable, responds 503 None, responds 503 None]))
       = [0, 1, 2, 3]
   \<and> length (attempts (request ex_config ''/search'' ex_options (scripted [responds 503 None, unreachable, responds 503 None, responds 503 None]))) \<le> 4"
  using request_attempts_bounded[of ex_config "''/search''" ex_options "scripted [responds 503 None, unreachable, responds 503 None, responds 503 None]"]
  by (simp add: request_fields retryLoop.simps ex_options_def scripted_def responds_def unreachable_def
      ex_response_def attemptStep_def maxRetries_def MAX_RETRIES_def RETRYABLE_STATUSES_def resp_ok_def Let_def)




text \<open>
  Claim C3, as the code has it. A failed attempt is retried exactly when the attempt index
  is below \<open>maxRetries\<close> and the attempt is a network-level failure (other than an abort) or
  its response status is one of 408, 429, 500, 502, 503, 504. So a retried attempt is a
  network failure, or of kind rate-limited, internal, bad-gateway, unavailable or
  gateway-timeout, or has status 408. A failed response of kind bad-request, unauthorized,
  forbidden, not-found, conflict or validation, or of kind unknown with a status other than
  408, is never retried: the call ends at that attempt with the error of that response.
\<close>

theorem retried_iff_transient_status:
  "(retried options attempt ev \<longleftrightarrow>
      int attempt < maxRetries options \<and>
      (networkFailure ev \<or>
       (\<exists>r. failedResponse ev = Some r \<and> resp_status r \<in> {408, 429, 500, 502, 503, 504})))
   \<and> (retried options attempt ev \<longrightarrow>
        networkFailure ev
        \<or> failedKind ev \<in> Some ` {RATE_LIMITED, INTERNAL_ERROR, BAD_GATEWAY, SERVICE_UNAVAILABLE,
                                   GATEWAY_TIMEOUT}
        \<or> map_option resp_status (failedResponse ev) = Some 408)
   \<and> (terminalKind ev \<longrightarrow> \<not> retried options attempt ev)
   \<and> (k \<in> set (attempts (request config path options env)) \<and> terminalKind (env k) \<longrightarrow>
        last (attempts (request config path options env)) = k
        \<and> (\<exists>r e. failedResponse (env k) = Some r \<and> status e = resp_status r
                  \<and> outcome (request config path options env) = Inl e))"
proof -
  have a: "retried options attempt ev \<longleftrightarrow>
      int attempt < maxRetries options \<and>
      (networkFailure ev \<or>
       (\<exists>r. failedResponse ev = Some r \<and> resp_status r \<in> {408, 429, 500, 502, 503, 504}))"
    using retried_iff[of options attempt ev] by (simp add: RETRYABLE_STATUSES_def)
  have b: "retried options attempt ev \<longrightarrow>
        networkFailure ev
        \<or> failedKind ev \<in> Some ` {RATE_LIMITED, INTERNAL_ERROR, BAD_GATEWAY, SERVICE_UNAVAILABLE,
                                   GATEWAY_TIMEOUT}
        \<or> map_option resp_status (failedResponse ev) = Some 408"
  proof
    assume "retried options attempt ev"
    then consider "networkFailure ev"
      | r where "failedResponse ev = Some r" "resp_status r \<in> RETRYABLE_STATUSES"
      using retried_iff[of options attempt ev] by blast
    then show "networkFailure ev
        \<or> failedKind ev \<in> Some ` {RATE_LIMITED, INTERNAL_ERROR, BAD_GATEWAY, SERVICE_UNAVAILABLE,
                                   GATEWAY_TIMEOUT}
        \<or> map_option resp_status (failedResponse ev) = Some 408"
    proof cases
      case 1
      then show ?thesis by simp
    next
      case 2
      then show ?thesis using retryable_kinds[of "resp_status r"] by (auto simp: failedKind_def)
    qed
  qed
  have c: "terminalKind ev \<longrightarrow> \<not> retried options attempt ev"
    using terminalKind_Throw[of ev options attempt] by (auto simp: retried_def)
  have d: "k \<in> set (attempts (request config path options env)) \<and> terminalKind (env k) \<longrightarrow>
        last (attempts (request config path options env)) = k
        \<and> (\<exists>r e. failedResponse (env k) = Some r \<and> status e = resp_status r
                  \<and> outcome (request config path options env) = Inl e)"
  proof
    assume h: "k \<in> set (attempts (request config path options env)) \<and> terminalKind (env k)"
    then obtain r e where re: "failedResponse (env k) = Some r"
        "attemptStep options k (env k) = Throw e" "status e = resp_status r"
      using terminalKind_Throw[of "env k" options k] by blast
    from h request_reached[of k config path options env] re(2)
    have "outcome (request config path options env) = Inl e
          \<and> last (attempts (request config path options env)) = k" by simp
    with re show "last (attempts (request config path options env)) = k
        \<and> (\<exists>r e. failedResponse (env k) = Some r \<and> status e = resp_status r
                  \<and> outcome (request config path options env) = Inl e)" by blast
  qed
  from a b c d show ?thesis by blast
qed

theorem retried_iff_transient_status_witness:
  "retried ex_options 0 (responds 429 None)
   \<and> failedKind (responds 429 None) = Some RATE_LIMITED
   \<and> terminalKind (responds 404 None)
   \<and> \<not> retried ex_options 1 (responds 404 None)
   \<and> 1 \<in> set (attempts (request ex_config ''/search'' ex_options
                         (scripted [responds 429 None, responds 404 None])))
   \<and> last (attempts (request ex_config ''/search'' ex_options
                         (scripted [responds 429 None, responds 404 None]))) = 1"
  using retried_iff_transient_status[of ex_options 0 "responds 429 None" 1 ex_config "''/search''"
          "scripted [responds 429 None, responds 404 None]"]
        retried_iff_transient_status[of ex_options 1 "responds 404 None" 1 ex_config "''/search''"
          "scripted [responds 429 None, responds 404 None]"]
  by (simp add: ex_dispatch_defs failedKind_def failedResponse_def networkFailure_def retried_def
      statusToCode_def terminalKind_def)

text \<open>
  The claim as stated fails at status 408: it classifies as unknown, is no network failure,
  and is retried.
\<close>

theorem retry_unknown_kind_counterexample:
  "failedKind (responds 408 None) = Some UNKNOWN_ERROR
   \<and> \<not> networkFailure (responds 408 None)
   \<and> retried ex_options 0 (responds 408 None)
   \<and> attempts (request ex_config ''/search'' ex_options (scripted [responds 408 None])) = [0, 1]"
  by (simp add: ex_dispatch_defs failedKind_def failedResponse_def networkFailure_def retried_def
      statusToCode_def)

text \<open>
  Claim C4, as the code has it. An attempt that is aborted while the caller's signal is not
  set (the 180 second timer fired) is classified as a network error with the timeout
  message, and it ends the call: the timeout error is the outcome and no further attempt
  is made, whatever retry budget remains.
\<close>

theorem timeout_terminates_call:
  assumes "k \<in> set (attempts (request config path options env))"
    and "timedOut options (env k)"
  shows "attemptStep options k (env k) = Throw timeoutError
       \<and> \<not> retried options k (env k)
       \<and> status timeoutError = 0 \<and> code timeoutError = NETWORK_ERROR
       \<and> outcome (request config path options env) = Inl timeoutError
       \<and> last (attempts (request config path options env)) = k"
proof -
  have st: "attemptStep options k (env k) = Throw timeoutError"
    using assms(2) by (rule timedOut_Throw)
  then have nr: "\<not> retried options k (env k)" by (simp add: retried_def)
  have kind: "status timeoutError = 0 \<and> code timeoutError = NETWORK_ERROR"
    by (simp add: timeoutError_def newHttpError_def statusToCode_def)
  from request_reached[OF assms(1)] st
  have "outcome (request config path options env) = Inl timeoutError
       \<and> last (attempts (request config path options env)) = k" by simp
  with st nr kind show ?thesis by blast
qed

theorem timeout_terminates_call_witness:
  "1 \<in> set (attempts (request ex_config ''/search'' ex_options (scripted [unreachable, aborts False])))
   \<and> timedOut ex_options (scripted [unreachable, aborts False] 1)
   \<and> outcome (request ex_config ''/search'' ex_options (scripted [unreachable, aborts False]))
       = Inl timeoutError
   \<and> attempts (request ex_config ''/search'' ex_options (scripted [unreachable, aborts False])) = [0, 1]"
  using timeout_terminates_call[of 1 ex_config "''/search''" ex_options
          "scripted [unreachable, aborts False]"]
  by (simp add: ex_dispatch_defs timedOut_def)

text \<open>
  The claim as stated fails on the first attempt of a call with the default budget of three
  retries: the timed-out attempt is not retried, where an unreachable host is.
\<close>

theorem timeout_not_retried_counterexample:
  "timedOut ex_options (aborts False)
   \<and> int 0 < maxRetries ex_options
   \<and> \<not> retried ex_options 0 (aborts False)
   \<and> retried ex_options 0 unreachable
   \<and> attempts (request ex_config ''/search'' ex_options (scripted [aborts False])) = [0]
   \<and> outcome (request ex_config ''/search'' ex_options (scripted [aborts False])) = Inl timeoutError"
  by (simp add: ex_dispatch_defs timedOut_def retried_def)

text \<open>
  Claim C5, on a call the code can receive. The caller's signal fires while the first attempt
  is in flight, after the headers of a reply have arrived and while the body is read. The
  call does not end with the error \<open>Request cancelled by user\<close>: after a 503 it sleeps, makes a
  second attempt and returns its payload; after a 200 it returns \<open>null\<close>. When the signal
  fires while \<open>fetch\<close> is pending, the call does end with that error.
\<close>

theorem cancel_while_reading_body_not_surfaced:
  "callerCancelsInFlight ex_options_signal (ex_run_cancel_in_body 503)
   \<and> int 0 < maxRetries ex_options_signal
   \<and> attempts (request ex_config ''/search'' ex_options_signal
                 (observed ex_options_signal (ex_runs (ex_run_cancel_in_body 503)))) = [0, 1]
   \<and> outcome (request ex_config ''/search'' ex_options_signal
                 (observed ex_options_signal (ex_runs (ex_run_cancel_in_body 503))))
       = Inr (JObject [(''message'', JString ''from the body'')])
   \<and> callerCancelsInFlight ex_options_signal (ex_run_cancel_in_body 200)
   \<and> outcome (request ex_config ''/search'' ex_options_signal
                 (observed ex_options_signal (ex_runs (ex_run_cancel_in_body 200)))) = Inr JNull
   \<and> callerCancelsInFlight ex_options_signal ex_run_cancel_in_fetch
   \<and> outcome (request ex_config ''/search'' ex_options_signal
                 (observed ex_options_signal (ex_runs ex_run_cancel_in_fetch))) = Inl cancelledError"
  by (simp add: ex_dispatch_defs ex_run_defs payloadOf_def startsWith_def truthy_def)

section \<open>Properties of the gateway\<close>

text \<open>
  Claim C2, as the code has it. For a request with scope headers and no credential, the
  overlay extracted is the request's scope values alone, without credential, whatever
  overlay the session recorded before. When authentication is required the request is
  rejected as unauthorized and the registry is left as it was. When it is not required and
  the session is known, the request runs under this scope-only overlay, which replaces the
  overlay recorded on the session.
\<close>

theorem scope_only_overlay_replaces:
  assumes "scopeOnly hs"
  shows "extractAuthOverride hs fallback = (Some (scopeOverlay hs), None)
       \<and> \<not> hasCredential (Some (scopeOverlay hs))
       \<and> res_reply (handleMcpRequest True env hs sess) = unauthorizedReply
       \<and> res_sessions (handleMcpRequest True env hs sess) = sess
       \<and> res_scope (handleMcpRequest True env hs sess) = None
       \<and> (\<forall>sid e. requestSessionId hs = Some sid \<and> sid \<noteq> [] \<and> sess sid = Some e \<longrightarrow>
             getAuthOverride (res_scope (handleMcpRequest False env hs sess)) = Some (scopeOverlay hs)
             \<and> res_sessions (handleMcpRequest False env hs sess) sid =
                 (if tr_closed (handleRequest env (Some (Some (scopeOverlay hs)))) = Some sid then None
                  else Some (e\<lparr>lastSeenAt := now_seen env, authOverride := Some (scopeOverlay hs)\<rparr>)))"
proof -
  note ex = extract_scopeOnly[OF assms]
  have a: "extractAuthOverride hs fallback = (Some (scopeOverlay hs), None)" by (rule ex)
  have b: "\<not> hasCredential (Some (scopeOverlay hs))"
    by (simp add: hasCredential_def scopeOverlay_no_token)
  have c: "handleMcpRequest True env hs sess =
      \<lparr>res_reply = unauthorizedReply, res_sessions = sess, res_created = False,
       res_scope = None, res_auth = None\<rparr>"
    by (simp add: handleMcpRequest_def ex scopeOverlay_no_token Let_def)
  have d: "\<forall>sid e. requestSessionId hs = Some sid \<and> sid \<noteq> [] \<and> sess sid = Some e \<longrightarrow>
             getAuthOverride (res_scope (handleMcpRequest False env hs sess)) = Some (scopeOverlay hs)
             \<and> res_sessions (handleMcpRequest False env hs sess) sid =
                 (if tr_closed (handleRequest env (Some (Some (scopeOverlay hs)))) = Some sid then None
                  else Some (e\<lparr>lastSeenAt := now_seen env, authOverride := Some (scopeOverlay hs)\<rparr>))"
  proof (intro allI impI)
    fix sid e
    assume h: "requestSessionId hs = Some sid \<and> sid \<noteq> [] \<and> sess sid = Some e"
    then have es: "existingSession sess hs = Some e"
      using existingSession_known[of hs sid sess] by simp
    show "getAuthOverride (res_scope (handleMcpRequest False env hs sess)) = Some (scopeOverlay hs)
             \<and> res_sessions (handleMcpRequest False env hs sess) sid =
                 (if tr_closed (handleRequest env (Some (Some (scopeOverlay hs)))) = Some sid then None
                  else Some (e\<lparr>lastSeenAt := now_seen env, authOverride := Some (scopeOverlay hs)\<rparr>))"
      using h es
      by (auto simp: handleMcpRequest_def ex Let_def runWithAuthOverride_def getAuthOverride_def
          truthy_def split: option.splits)
  qed
  have c1: "res_reply (handleMcpRequest True env hs sess) = unauthorizedReply"
    and c2: "res_sessions (handleMcpRequest True env hs sess) = sess"
    and c3: "res_scope (handleMcpRequest True env hs sess) = None"
    by (simp_all add: c)
  from a b c1 c2 c3 d show ?thesis by blast
qed

theorem scope_only_overlay_replaces_witness:
  "scopeOnly ex_scope_headers
   \<and> res_reply (handleMcpRequest True ex_gateway_env ex_scope_headers ex_sessions) = unauthorizedReply
   \<and> requestSessionId ex_scope_headers = Some ''s1''
   \<and> map_option authOverride (ex_sessions ''s1'') = Some (Some ex_prior)
   \<and> map_option authOverride
        (res_sessions (handleMcpRequest False ex_gateway_env ex_scope_headers ex_sessions) ''s1'')
       = Some (Some (scopeOverlay ex_scope_headers))"
  using scope_only_overlay_replaces[of ex_scope_headers None ex_gateway_env ex_sessions]
  by (simp add: scopeOnly_def ex_scope_headers_def headerJwt_def headerApiKey_def headerBearer_def
      headerWorkspaceId_def headerProjectId_def normalizeHeaderValue_def js_or_def truthy_def
      bearerToken_def requestSessionId_def ex_sessions_def ex_gateway_env_def)

text \<open>
  The claim as stated fails for a session that recorded an API key: the overlay in effect
  and the overlay recorded afterwards carry the new workspace and no credential, and with
  authentication required the request is rejected.
\<close>

theorem scope_only_drops_credential_counterexample:
  "scopeOnly ex_scope_headers
   \<and> requestSessionId ex_scope_headers = Some ''s1''
   \<and> map_option authOverride (ex_sessions ''s1'') = Some (Some ex_prior)
   \<and> hasCredential (Some ex_prior)
   \<and> res_scope (handleMcpRequest False ex_gateway_env ex_scope_headers ex_sessions)
       = Some (Some \<lparr>apiKey = None, jwt = None, workspaceId = Some ''ws-new'', projectId = None\<rparr>)
   \<and> map_option authOverride
        (res_sessions (handleMcpRequest False ex_gateway_env ex_scope_headers ex_sessions) ''s1'')
       = Some (Some \<lparr>apiKey = None, jwt = None, workspaceId = Some ''ws-new'', projectId = None\<rparr>)
   \<and> res_reply (handleMcpRequest True ex_gateway_env ex_scope_headers ex_sessions) = unauthorizedReply"
  by (simp add: scopeOnly_def ex_scope_headers_def headerJwt_def headerApiKey_def headerBearer_def
      headerWorkspaceId_def headerProjectId_def normalizeHeaderValue_def js_or_def truthy_def
      bearerToken_def requestSessionId_def ex_sessions_def ex_gateway_env_def ex_prior_def
      hasCredential_def overrideToken_def handleMcpRequest_def existingSession_def sessionOverlay_def
      extractAuthOverride_def runWithAuthOverride_def Let_def)

text \<open>
  Claim C8, as the code has it. A request that presents a session identifier which the
  registry does not hold is rejected before a session is created and before the transport
  runs, and the registry is left as it was. The reply is the unknown-session one, except
  that the check for a credential comes first: when authentication is required and the
  request yields no credential, the reply is the unauthorized one.
\<close>

theorem unknown_session_rejected:
  assumes "requestSessionId hs = Some sid" and "sid \<noteq> []" and "sess sid = None"
  shows "res_reply (handleMcpRequest requireAuth env hs sess) =
           (if requireAuth \<and> \<not> hasCredential (fst (extractAuthOverride hs None))
            then unauthorizedReply else unknownSessionReply)
       \<and> res_sessions (handleMcpRequest requireAuth env hs sess) = sess
       \<and> \<not> res_created (handleMcpRequest requireAuth env hs sess)
       \<and> res_scope (handleMcpRequest requireAuth env hs sess) = None
       \<and> res_auth (handleMcpRequest requireAuth env hs sess) = None"
proof -
  have es: "existingSession sess hs = None"
    using existingSession_known[OF assms(1,2), of sess] assms(3) by simp
  have so: "sessionOverlay sess hs = None"
    using sessionOverlay_unknown[of hs sid sess] assms(1,3) by simp
  have tr: "truthy (requestSessionId hs)"
    using assms(1,2) by (simp add: truthy_def)
  obtain ov tt where ex: "extractAuthOverride hs None = (ov, tt)"
    by (cases "extractAuthOverride hs None")
  show ?thesis
    by (simp add: handleMcpRequest_def es so tr ex hasCredential_def Let_def)
qed

theorem unknown_session_rejected_witness:
  "requestSessionId ex_ghost_key_headers = Some ''ghost'' \<and> ''ghost'' \<noteq> []
   \<and> ex_sessions ''ghost'' = None
   \<and> res_reply (handleMcpRequest True ex_gateway_env ex_ghost_key_headers ex_sessions)
       = unknownSessionReply
   \<and> res_sessions (handleMcpRequest True ex_gateway_env ex_ghost_key_headers ex_sessions)
       = ex_sessions"
  using unknown_session_rejected[of ex_ghost_key_headers "''ghost''" ex_sessions True ex_gateway_env]
  by (simp add: requestSessionId_def ex_ghost_key_headers_def normalizeHeaderValue_def
      ex_sessions_def hasCredential_def overrideToken_def extractAuthOverride_def headerJwt_def
      headerApiKey_def js_or_def truthy_def Let_def)

text \<open>
  The claim as stated fails for an unknown session identifier sent without a credential
  to a gateway that requires authentication: the reply is 401, not the unknown-session 404.
\<close>

theorem unknown_session_unauthorized_counterexample:
  "requestSessionId ex_ghost_headers = Some ''ghost''
   \<and> ex_sessions ''ghost'' = None
   \<and> res_reply (handleMcpRequest True ex_gateway_env ex_ghost_headers ex_sessions)
       = unauthorizedReply
   \<and> unauthorizedReply \<noteq> unknownSessionReply"
  by (simp add: requestSessionId_def ex_ghost_headers_def normalizeHeaderValue_def
      ex_sessions_def overrideToken_def extractAuthOverride_def headerJwt_def headerBearer_def
      headerWorkspaceId_def headerProjectId_def bearerToken_def
      headerApiKey_def js_or_def truthy_def Let_def handleMcpRequest_def existingSession_def
      sessionOverlay_def unauthorizedReply_def unknownSessionReply_def)

text \<open>
  Claim C10. A request whose path is \<open>/health\<close> is answered with status 200 and a body of
  status and version, whatever its headers, whatever the registry holds and whether or not
  authentication is required; the registry is returned unchanged, no session is created and
  the transport does not run.
\<close>

theorem health_always_ok:
  assumes "truthy (req_url req)" and "req_pathname req = Some ''/health''"
  shows "gw_reply (serverHandler cfg env req sess)
           = WriteJson 200 [(''status'', ''ok''), (''version'', VERSION cfg)]
       \<and> gw_sessions (serverHandler cfg env req sess) = sess
       \<and> \<not> gw_created (serverHandler cfg env req sess)
       \<and> gw_scope (serverHandler cfg env req sess) = None"
  using assms by (simp add: serverHandler_def)

theorem health_always_ok_witness:
  "truthy (req_url ex_health_request) \<and> req_pathname ex_health_request = Some ''/health''
   \<and> REQUIRE_AUTH ex_gateway_config
   \<and> gw_reply (serverHandler ex_gateway_config ex_gateway_env ex_health_request ex_sessions)
       = WriteJson 200 [(''status'', ''ok''), (''version'', ''0.4.42'')]
   \<and> gw_sessions (serverHandler ex_gateway_config ex_gateway_env ex_health_request ex_sessions)
       = ex_sessions"
  using health_always_ok[of ex_health_request ex_gateway_config ex_gateway_env ex_sessions]
  by (simp add: ex_health_request_def ex_gateway_config_def truthy_def)

section \<open>From the gateway to the dispatcher\<close>

text \<open>
  Claim C1, as the code has it. The identity headers of a call of \<open>request\<close> come from the
  \<open>Config\<close> it is given, under whatever overlay it runs: \<open>X-API-Key\<close> is sent exactly when
  \<open>config.apiKey\<close> is non-empty and \<open>Authorization: Bearer\<close> exactly when \<open>config.jwt\<close> is,
  with these values; a call whose \<open>Config\<close> has neither is sent with the content type and the
  user agent alone. What is sent under an overlay is what is sent outside any.
\<close>

theorem request_identity_from_config:
  "fo_headers (sent (runWithAuthOverride override (requestWithin config path options env))) ''X-API-Key''
     = (if truthy (cfg_apiKey config) then cfg_apiKey config else None)
   \<and> fo_headers (sent (runWithAuthOverride override (requestWithin config path options env)))
       ''Authorization''
     = (if truthy (cfg_jwt config) then Some (''Bearer '' @ the (cfg_jwt config)) else None)
   \<and> (\<not> truthy (cfg_apiKey config) \<and> \<not> truthy (cfg_jwt config) \<longrightarrow>
        fo_headers (sent (runWithAuthOverride override (requestWithin config path options env)))
          = [''Content-Type'' \<mapsto> ''application/json'', ''User-Agent'' \<mapsto> cfg_userAgent config])
   \<and> sent (runWithAuthOverride override (requestWithin config path options env))
       = sent (requestWithin config path options env None)"
proof -
  let ?h = "fo_headers (sent (runWithAuthOverride override (requestWithin config path options env)))"
  have h: "?h = requestHeaders config"
    by (simp add: runWithAuthOverride_def requestWithin_def request_fields fetchOptions_def)
  have a: "?h ''X-API-Key'' = (if truthy (cfg_apiKey config) then cfg_apiKey config else None)"
    unfolding h by (rule requestHeaders_lookup(1))
  have b: "?h ''Authorization''
     = (if truthy (cfg_jwt config) then Some (''Bearer '' @ the (cfg_jwt config)) else None)"
    unfolding h by (rule requestHeaders_lookup(2))
  have c: "\<not> truthy (cfg_apiKey config) \<and> \<not> truthy (cfg_jwt config) \<longrightarrow>
        ?h = [''Content-Type'' \<mapsto> ''application/json'', ''User-Agent'' \<mapsto> cfg_userAgent config]"
    unfolding h using requestHeaders_plain[of config] by blast
  have d: "sent (runWithAuthOverride override (requestWithin config path options env))
       = sent (requestWithin config path options env None)"
    by (simp add: runWithAuthOverride_def requestWithin_def)
  from a b c d show ?thesis by blast
qed

theorem request_identity_from_config_witness:
  "\<not> truthy (cfg_apiKey ex_config_no_credential) \<and> \<not> truthy (cfg_jwt ex_config_no_credential)
   \<and> hasCredential (getAuthOverride (Some (Some ex_prior)))
   \<and> fo_headers (sent (runWithAuthOverride (Some ex_prior)
                         (requestWithin ex_config_no_credential ''/search'' ex_options (scripted []))))
       = [''Content-Type'' \<mapsto> ''application/json'', ''User-Agent'' \<mapsto> ''contextstream-mcp/0.1.0'']"
proof -
  have nc: "\<not> truthy (cfg_apiKey ex_config_no_credential) \<and> \<not> truthy (cfg_jwt ex_config_no_credential)"
    by (simp add: ex_config_no_credential_def ex_config_def truthy_def)
  have hc: "hasCredential (getAuthOverride (Some (Some ex_prior)))"
    by (simp add: hasCredential_iff getAuthOverride_def ex_prior_def truthy_def)
  have "fo_headers (sent (runWithAuthOverride (Some ex_prior)
                         (requestWithin ex_config_no_credential ''/search'' ex_options (scripted []))))
       = [''Content-Type'' \<mapsto> ''application/json'',
          ''User-Agent'' \<mapsto> cfg_userAgent ex_config_no_credential]"
    using request_identity_from_config[of "Some ex_prior" ex_config_no_credential "''/search''"
          ex_options "scripted []"] nc by blast
  then have "fo_headers (sent (runWithAuthOverride (Some ex_prior)
                         (requestWithin ex_config_no_credential ''/search'' ex_options (scripted []))))
       = [''Content-Type'' \<mapsto> ''application/json'', ''User-Agent'' \<mapsto> ''contextstream-mcp/0.1.0'']"
    by (simp add: ex_config_no_credential_def ex_config_def)
  with nc hc show ?thesis by blast
qed

text \<open>
  The claim as stated fails for a \<open>Config\<close> with an API key: under the overlay of a
  scope-only request, which has no credential, and under an overlay with another key, the
  call sends the key of the \<open>Config\<close>.
\<close>

theorem overlay_not_read_by_request_counterexample:
  "getAuthOverride (res_scope (handleMcpRequest False ex_gateway_env ex_scope_headers ex_sessions))
     = Some (scopeOverlay ex_scope_headers)
   \<and> \<not> hasCredential (Some (scopeOverlay ex_scope_headers))
   \<and> fo_headers (sent (runWithAuthOverride (Some (scopeOverlay ex_scope_headers))
                         (requestWithin ex_config ''/search'' ex_options (scripted []))))
         ''X-API-Key'' = Some ''key-from-env''
   \<and> apiKey ex_prior = Some ''key-1''
   \<and> fo_headers (sent (runWithAuthOverride (Some ex_prior)
                         (requestWithin ex_config ''/search'' ex_options (scripted []))))
         ''X-API-Key'' = Some ''key-from-env''"
  by (simp add: scopeOnly_def ex_scope_headers_def headerJwt_def headerApiKey_def headerBearer_def
      headerWorkspaceId_def headerProjectId_def normalizeHeaderValue_def js_or_def truthy_def
      bearerToken_def requestSessionId_def ex_sessions_def ex_gateway_env_def ex_prior_def
      hasCredential_def overrideToken_def handleMcpRequest_def existingSession_def sessionOverlay_def
      extractAuthOverride_def runWithAuthOverride_def getAuthOverride_def Let_def scopeOverlay_def
      requestWithin_def request_fields fetchOptions_def requestHeaders_def ex_config_def)

end
